theory Spec2Isabelle
  imports Main "HOL-Library.Word"
begin

unbundle bit_operations_syntax

section \<open>Machine types\<close>

text \<open>
  The fixed-width integers of the C++ sources. \<open>size_t\<close> is taken as the 64-bit
  unsigned type of the LP64 targets libjxl is built for; unsigned arithmetic wraps
  around, which is what \<open>+\<close> on words does.
\<close>

type_synonym u8 = "8 word"
type_synonym u32 = "32 word"
type_synonym u64 = "64 word"
type_synonym size_t = "64 word"

text \<open>
  A C \<open>float\<close> is kept as its IEEE-754 binary32 bit pattern. The only operation the
  modelled code performs on one is the comparison \<open>x == 0.0f\<close>, which holds exactly
  for the two zeros (all bits clear but possibly the sign bit) and fails for every
  other value, NaN included.
\<close>

type_synonym float32 = "32 word"

definition float_eq_zero :: "float32 \<Rightarrow> bool" where
  "float_eq_zero x = (x AND 0x7fffffff = 0)"

section \<open>Types declared in other headers\<close>

text \<open>
  The two files at hand use images, compression parameters and metadata whose
  declarations live in other headers of the library. They are represented by records
  that carry the members the two files read or write.
\<close>

subsection \<open>Images\<close>

text \<open>
  Modelled from the spec: the image classes are declared outside the files at hand. An
  image is its dimensions and its samples; a default-constructed image (\<open>Image3F()\<close>,
  \<open>ImageBundle()\<close>) is the empty image, with zero dimensions and no sample data, which
  is what releasing a stored image leaves behind.
\<close>

record ImageF =
  xsize :: size_t
  ysize :: size_t
  samples :: "float32 list"

definition ImageF_new :: ImageF where
  "ImageF_new = \<lparr>xsize = 0, ysize = 0, samples = []\<rparr>"

datatype Image3F = Image3F (plane0: ImageF) (plane1: ImageF) (plane2: ImageF)

definition Image3F_new :: Image3F where
  "Image3F_new = Image3F ImageF_new ImageF_new ImageF_new"

datatype ColorTransform = kXYB | kNone | kYCbCr

record ImageBundle =
  color :: Image3F
  extra_channels :: "ImageF list"
  is_jpeg :: bool
  color_transform_ib :: ColorTransform
  use_for_next_frame :: bool

definition ImageBundle_new :: ImageBundle where
  "ImageBundle_new =
     \<lparr>color = Image3F_new, extra_channels = [], is_jpeg = False,
      color_transform_ib = kNone, use_for_next_frame = False\<rparr>"

definition HasColor :: "ImageBundle \<Rightarrow> bool" where
  "HasColor ib = (xsize (plane0 (color ib)) \<noteq> 0)"

definition IsJPEG :: "ImageBundle \<Rightarrow> bool" where
  "IsJPEG ib = is_jpeg ib"

subsection \<open>Compression parameters\<close>

text \<open>
  The members of \<open>CompressParams\<close> that the encoder driver reads. \<open>saliency_map\<close> is a
  nullable pointer to an image; \<open>quality_pair.first\<close> is the first component of a pair
  of floats.
\<close>

record CompressParams =
  color_transform :: ColorTransform
  already_downsampled :: bool
  resampling :: int
  modular_mode :: bool
  quality_pair_first :: float32
  progressive_mode :: bool
  qprogressive_mode :: bool
  saliency_map :: "ImageF option"
  saliency_threshold :: float32
  saliency_num_progressive_steps :: int

section \<open>lib/jxl/encode_internal.h\<close>

subsection \<open>Box types and box headers\<close>

text \<open>\<open>typedef std::array<uint8_t, 4> BoxType\<close>: exactly four bytes.\<close>

datatype BoxType = BoxType u8 u8 u8 u8

fun box_bytes :: "BoxType \<Rightarrow> u8 list" where
  "box_bytes (BoxType a b c d) = [a, b, c, d]"

text \<open>
  \<open>MakeBoxType\<close> reads the first four characters of a string literal. A shorter
  string is outside its contract (the C++ would read out of bounds), which the model
  reports as \<open>None\<close>.
\<close>

fun MakeBoxType :: "string \<Rightarrow> BoxType option" where
  "MakeBoxType (a # b # c # d # _) =
     Some (BoxType (of_char a) (of_char b) (of_char c) (of_char d))"
| "MakeBoxType _ = None"

text \<open>\<open>output->push_back(b)\<close> on a byte container.\<close>

definition push_back :: "u8 list \<Rightarrow> u8 \<Rightarrow> u8 list" where
  "push_back output b = output @ [b]"

text \<open>
  The expression \<open>v >> sh & 0xff\<close> on a \<open>uint64_t\<close>, converted to the container's
  \<open>uint8_t\<close> element type by \<open>push_back\<close>.
\<close>

definition shifted_byte :: "u64 \<Rightarrow> nat \<Rightarrow> u8" where
  "shifted_byte v sh = ucast (drop_bit sh v AND 0xff)"

text \<open>
  \<open>AppendBoxHeader(type, size, unbounded, output)\<close>, lines 76 to 102. The three
  \<open>for\<close> loops run over the index lists \<open>[0..<4]\<close>, \<open>[0..<4]\<close> and \<open>[0..<8]\<close>;
  the parameter \<open>size\<close> is written \<open>sz\<close>, and \<open>box_size = size + 8\<close> is computed in
  64-bit unsigned arithmetic and wraps.
\<close>

definition AppendBoxHeader :: "BoxType \<Rightarrow> size_t \<Rightarrow> bool \<Rightarrow> u8 list \<Rightarrow> u8 list" where
  "AppendBoxHeader type sz unbounded output =
     (let box_size = (if \<not> unbounded then sz + 8 else 0 :: u64);
          large_size = (\<not> unbounded \<and> box_size \<ge> 0x100000000);
          store = (if large_size then 1 else box_size);
          output1 = foldl (\<lambda>out i. push_back out (shifted_byte store (8 * (3 - i))))
                      output [0..<4];
          output2 = foldl (\<lambda>out i. push_back out (box_bytes type ! i)) output1 [0..<4]
      in if large_size
         then foldl (\<lambda>out i. push_back out (shifted_byte box_size (8 * (7 - i))))
                output2 [0..<8]
         else output2)"

subsection \<open>Reading a box header back\<close>

text \<open>The value of a byte string read as a big-endian number.\<close>

definition be_value :: "u8 list \<Rightarrow> nat" where
  "be_value bs = foldl (\<lambda>acc b. acc * 256 + unat b) 0 bs"

text \<open>
  Modelled from the spec: the reader of a box header is not part of the sources at
  hand. It follows the box header format the specification gives. Every header starts
  with a 4-byte big-endian size field and the 4-byte type tag, and a size counts the
  whole box, its header included: the payload of a box with this 8-byte header is the
  size less 8. A size field holding the literal value 1 announces an extra 8-byte
  big-endian field with the true size of the box; the header is then 16 bytes long and
  the payload is the true size less 16. The result is the type tag and the payload
  length. A size that does not even cover the header describes no box of known length
  and yields \<open>None\<close>.
\<close>

definition ParseBoxHeader :: "u8 list \<Rightarrow> (BoxType \<times> nat) option" where
  "ParseBoxHeader bs =
     (if length bs < 8 then None
      else
        let field = be_value (take 4 bs);
            ty = BoxType (bs ! 4) (bs ! 5) (bs ! 6) (bs ! 7)
        in if field = 1 then
             (if length bs < 16 then None
              else let xl = be_value (take 8 (drop 8 bs))
                   in if xl < 16 then None else Some (ty, xl - 16))
           else if field < 8 then None
           else Some (ty, field - 8))"

subsection \<open>Queued input\<close>

text \<open>
  \<open>JxlFrameHeader\<close> and \<open>JxlBlendInfo\<close> are plain structs of the public API; nothing
  in the two files looks inside them.
\<close>

typedecl JxlFrameHeader
typedecl JxlBlendInfo

record JxlEncoderFrameSettingsValues =
  lossless :: bool
  values_cparams :: CompressParams
  header :: JxlFrameHeader
  extra_channel_blend_info :: "JxlBlendInfo list"
  frame_name :: string

record JxlEncoderQueuedFrame =
  option_values :: JxlEncoderFrameSettingsValues
  frame_ib :: ImageBundle
  ec_initialized :: "u8 list"

record JxlEncoderQueuedBox =
  box_type :: BoxType
  contents :: "u8 list"
  compress_box :: bool

text \<open>
  \<open>JxlEncoderQueuedInput\<close> holds two owning pointers, \<open>frame\<close> and \<open>box\<close>; a
  \<open>MemoryManagerUniquePtr\<close> is either null (\<open>None\<close>) or owns one object. The
  constructor, lines 66 to 68, sets both to \<open>nullptr\<close>; the memory manager only
  parameterises the deleters. (The image member \<open>frame\<close> of a queued frame is written
  \<open>frame_ib\<close>, the name \<open>frame\<close> being kept for the queue entry.)
\<close>

record JxlEncoderQueuedInput =
  frame :: "JxlEncoderQueuedFrame option"
  box :: "JxlEncoderQueuedBox option"

definition JxlEncoderQueuedInput_new :: "'mm \<Rightarrow> JxlEncoderQueuedInput" where
  "JxlEncoderQueuedInput_new memory_manager = \<lparr>frame = None, box = None\<rparr>"

text \<open>The reading of "exactly one of a frame or a box" on a queue entry.\<close>

definition holds_exactly_one :: "JxlEncoderQueuedInput \<Rightarrow> bool" where
  "holds_exactly_one q = ((frame q \<noteq> None) \<noteq> (box q \<noteq> None))"

subsection \<open>The encoder session\<close>

text \<open>
  The scalar fields of \<open>JxlEncoderStruct\<close> and its queues. The memory manager, thread
  pool, colour management interface and metadata objects are opaque to the two member
  functions defined in the header and are left out.
\<close>

record JxlEncoderStruct =
  num_queued_frames :: size_t
  num_queued_boxes :: size_t
  input_queue :: "JxlEncoderQueuedInput list"
  output_byte_queue :: "u8 list"
  output_bytes_flushed :: size_t
  use_container :: bool
  use_boxes :: bool
  codestream_level :: u32
  store_jpeg_metadata :: bool
  jpeg_metadata :: "u8 list"
  wrote_bytes :: bool
  jxlp_counter :: size_t
  frames_closed :: bool
  boxes_closed :: bool
  basic_info_set :: bool
  color_encoding_set :: bool
  intensity_target_set :: bool
  brotli_effort :: int

definition BytePosition :: "JxlEncoderStruct \<Rightarrow> size_t" where
  "BytePosition enc = output_bytes_flushed enc + word_of_nat (length (output_byte_queue enc))"

definition MustUseContainer :: "JxlEncoderStruct \<Rightarrow> bool" where
  "MustUseContainer enc =
     (use_container enc \<or> codestream_level enc \<noteq> 5 \<or> store_jpeg_metadata enc \<or>
      use_boxes enc)"

section \<open>lib/jxl/enc_file.cc\<close>

subsection \<open>Results\<close>

text \<open>
  A \<open>Status\<close> is success or a failure carrying its message (\<open>JXL_FAILURE\<close>).
  \<open>OutOfContract\<close> stands for a run that leaves defined behaviour or aborts the process:
  indexing \<open>frames[0]\<close> of an empty frame list, or a failed \<open>JXL_CHECK\<close>.
\<close>

datatype error = Failure string | OutOfContract

type_synonym Status = "error + unit"

subsection \<open>The progressive-pass catalog, lines 33 to 66\<close>

record PassDefinition =
  num_coefficients :: nat
  shift :: nat
  salient_only :: bool
  suitable_for_downsampling_of_at_least :: nat

type_synonym ProgressiveMode = "PassDefinition list"

definition progressive_passes_dc_vlf :: ProgressiveMode where
  "progressive_passes_dc_vlf =
     [\<lparr>num_coefficients = 2, shift = 0, salient_only = False,
       suitable_for_downsampling_of_at_least = 4\<rparr>]"

definition progressive_passes_dc_lf :: ProgressiveMode where
  "progressive_passes_dc_lf =
     [\<lparr>num_coefficients = 2, shift = 0, salient_only = False,
       suitable_for_downsampling_of_at_least = 4\<rparr>,
      \<lparr>num_coefficients = 3, shift = 0, salient_only = False,
       suitable_for_downsampling_of_at_least = 2\<rparr>]"

definition progressive_passes_dc_lf_salient_ac :: ProgressiveMode where
  "progressive_passes_dc_lf_salient_ac =
     [\<lparr>num_coefficients = 2, shift = 0, salient_only = False,
       suitable_for_downsampling_of_at_least = 4\<rparr>,
      \<lparr>num_coefficients = 3, shift = 0, salient_only = False,
       suitable_for_downsampling_of_at_least = 2\<rparr>,
      \<lparr>num_coefficients = 8, shift = 0, salient_only = True,
       suitable_for_downsampling_of_at_least = 0\<rparr>]"

definition progressive_passes_dc_lf_salient_ac_other_ac :: ProgressiveMode where
  "progressive_passes_dc_lf_salient_ac_other_ac =
     [\<lparr>num_coefficients = 2, shift = 0, salient_only = False,
       suitable_for_downsampling_of_at_least = 4\<rparr>,
      \<lparr>num_coefficients = 3, shift = 0, salient_only = False,
       suitable_for_downsampling_of_at_least = 2\<rparr>,
      \<lparr>num_coefficients = 8, shift = 0, salient_only = True,
       suitable_for_downsampling_of_at_least = 0\<rparr>,
      \<lparr>num_coefficients = 8, shift = 0, salient_only = False,
       suitable_for_downsampling_of_at_least = 0\<rparr>]"

definition progressive_passes_dc_quant_ac_full_ac :: ProgressiveMode where
  "progressive_passes_dc_quant_ac_full_ac =
     [\<lparr>num_coefficients = 8, shift = 1, salient_only = False,
       suitable_for_downsampling_of_at_least = 2\<rparr>,
      \<lparr>num_coefficients = 8, shift = 0, salient_only = False,
       suitable_for_downsampling_of_at_least = 0\<rparr>]"

text \<open>The five tables of the file, in the order they are declared.\<close>

definition progressive_pass_catalog :: "ProgressiveMode list" where
  "progressive_pass_catalog =
     [progressive_passes_dc_vlf, progressive_passes_dc_lf,
      progressive_passes_dc_lf_salient_ac,
      progressive_passes_dc_lf_salient_ac_other_ac,
      progressive_passes_dc_quant_ac_full_ac]"

text \<open>
  Non-decreasing information order across consecutive passes: the number of
  coefficients does not go down and the downsampling for which a pass suffices does
  not go up.
\<close>

fun information_order :: "PassDefinition list \<Rightarrow> bool" where
  "information_order (p # q # rest) =
     (num_coefficients p \<le> num_coefficients q \<and>
      suitable_for_downsampling_of_at_least q \<le> suitable_for_downsampling_of_at_least p \<and>
      information_order (q # rest))"
| "information_order _ = True"

text \<open>
  A first pass usable as a DC or low-frequency approximation: there is one, it covers
  the whole image rather than the salient regions only, it carries at least the DC
  and one more coefficient, and it is marked as sufficient for a downsampled rendering
  (a factor of at least 2).
\<close>

fun first_pass_is_approximation :: "PassDefinition list \<Rightarrow> bool" where
  "first_pass_is_approximation [] = False"
| "first_pass_is_approximation (p # _) =
     (\<not> salient_only p \<and> 2 \<le> num_coefficients p \<and>
      2 \<le> suitable_for_downsampling_of_at_least p)"

subsection \<open>The bit sink\<close>

text \<open>
  Modelled from the spec: \<open>BitWriter\<close> is declared outside the files at hand and the
  specification treats it as a bit sink with append and byte-alignment primitives. A
  writer is the sequence of bits written so far. \<open>Write(n, v)\<close> appends the \<open>n\<close> low
  bits of \<open>v\<close>, least significant first; \<open>ZeroPadToByte\<close> appends zero bits up to the
  next multiple of eight; \<open>AppendByteAligned\<close> appends the content of another writer;
  \<open>TakeBytes\<close> groups the bits into bytes, least significant bit first.
\<close>

type_synonym BitWriter = "bool list"

definition BitWriter_new :: BitWriter where
  "BitWriter_new = []"

definition BitsWritten :: "BitWriter \<Rightarrow> nat" where
  "BitsWritten writer = length writer"

definition Write :: "nat \<Rightarrow> u64 \<Rightarrow> BitWriter \<Rightarrow> BitWriter" where
  "Write n_bits v writer = writer @ map (bit v) [0..<n_bits]"

definition ZeroPadToByte :: "BitWriter \<Rightarrow> BitWriter" where
  "ZeroPadToByte writer = writer @ replicate ((8 - length writer mod 8) mod 8) False"

definition AppendByteAligned :: "BitWriter \<Rightarrow> BitWriter \<Rightarrow> BitWriter" where
  "AppendByteAligned writer other = writer @ other"

fun TakeBytes :: "BitWriter \<Rightarrow> u8 list" where
  "TakeBytes [] = []"
| "TakeBytes (b # bs) =
     horner_sum of_bool 2 (take 8 (b # bs)) # TakeBytes (drop 7 bs)"

subsection \<open>Metadata and input\<close>

record ColorEncoding =
  want_icc :: bool
  icc :: "u8 list"

record ImageMetadata =
  color_encoding :: ColorEncoding
  xyb_encoded :: bool
  have_preview :: bool

record SizeHeader =
  size_x :: size_t
  size_y :: size_t

record CustomTransformData =
  nonserialized_xyb_encoded :: bool

text \<open>
  \<open>CodecMetadata\<close> has the members \<open>m\<close>, \<open>size\<close> and \<open>transform_data\<close>; the first two
  are written \<open>image_metadata\<close> and \<open>size_header\<close> here.
\<close>

record CodecMetadata =
  image_metadata :: ImageMetadata
  size_header :: SizeHeader
  transform_data :: CustomTransformData

text \<open>
  \<open>CodecInOut\<close>: \<open>io_metadata\<close> is its member \<open>metadata\<close>, \<open>io_xsize\<close> and
  \<open>io_ysize\<close> are the values of its methods \<open>xsize()\<close> and \<open>ysize()\<close>,
  \<open>blobs_exif\<close> is \<open>blobs.exif\<close>, and \<open>Main()\<close> is \<open>frames[0]\<close>.
\<close>

record CodecInOut =
  io_metadata :: CodecMetadata
  frames :: "ImageBundle list"
  preview_frame :: ImageBundle
  blobs_exif :: "u8 list"
  io_xsize :: size_t
  io_ysize :: size_t

definition Main :: "CodecInOut \<Rightarrow> ImageBundle option" where
  "Main io = (case frames io of [] \<Rightarrow> None | f # _ \<Rightarrow> Some f)"

record FrameInfo =
  is_preview :: bool
  is_last :: bool
  save_as_reference :: size_t

subsection \<open>The shared encoder state\<close>

text \<open>A C array of exactly four elements, indexed from 0.\<close>

datatype 'a array4 = Array4 'a 'a 'a 'a

fun array4_update :: "nat \<Rightarrow> 'a \<Rightarrow> 'a array4 \<Rightarrow> 'a array4" where
  "array4_update i v (Array4 a b c d) =
     (if i = 0 then Array4 v b c d
      else if i = 1 then Array4 a v c d
      else if i = 2 then Array4 a b v d
      else if i = 3 then Array4 a b c v
      else Array4 a b c d)"

fun array4_nth :: "'a array4 \<Rightarrow> nat \<Rightarrow> 'a" where
  "array4_nth (Array4 a b c d) i =
     (if i = 0 then a else if i = 1 then b else if i = 2 then c else d)"

fun array4_list :: "'a array4 \<Rightarrow> 'a list" where
  "array4_list (Array4 a b c d) = [a, b, c, d]"

text \<open>
  The progressive splitter keeps what its three setters store: \<open>SetSaliencyMap\<close>,
  \<open>SetSaliencyThreshold\<close> and \<open>SetProgressiveMode\<close>.
\<close>

record ProgressiveSplitter =
  splitter_saliency_map :: "ImageF option"
  splitter_saliency_threshold :: float32
  splitter_mode :: ProgressiveMode

definition SetSaliencyMap :: "ImageF \<Rightarrow> ProgressiveSplitter \<Rightarrow> ProgressiveSplitter" where
  "SetSaliencyMap saliency ps = ps\<lparr>splitter_saliency_map := Some saliency\<rparr>"

definition SetSaliencyThreshold :: "float32 \<Rightarrow> ProgressiveSplitter \<Rightarrow> ProgressiveSplitter" where
  "SetSaliencyThreshold threshold ps = ps\<lparr>splitter_saliency_threshold := threshold\<rparr>"

definition SetProgressiveMode :: "ProgressiveMode \<Rightarrow> ProgressiveSplitter \<Rightarrow> ProgressiveSplitter" where
  "SetProgressiveMode mode ps = ps\<lparr>splitter_mode := mode\<rparr>"

record ReferenceFrame =
  storage :: ImageBundle
  ib_is_in_xyb :: bool

record PassesSharedState =
  dc_frames :: "Image3F array4"
  reference_frames :: "ReferenceFrame array4"

record PassesEncoderState =
  progressive_splitter :: ProgressiveSplitter
  shared :: PassesSharedState

subsection \<open>External collaborators\<close>

text \<open>
  The functions and constants that \<open>enc_file.cc\<close> calls and that other files define.
  They are parameters of the model: every theorem below holds whatever they compute.
  A collaborator that returns a \<open>Status\<close> and writes through a pointer returns the
  written object on success. \<open>EncodeFrame\<close> works on the caller's shared state, which
  keeps what was written to it also when the call fails, so it returns the status
  together with the state and the writer. The colour management interface and the
  thread pool are passed through to \<open>EncodeFrame\<close> unchanged and are part of that
  parameter; \<open>AuxOut\<close> only gathers statistics and is left out, as is the bit-budget
  bookkeeping of \<open>BitWriter::Allotment\<close> and \<open>ReclaimAndCharge\<close>.
  \<open>FrameInfo_new\<close> and \<open>PassesEncoderState_new\<close> are the default-constructed
  objects.
\<close>

record externals =
  CheckMetadata :: "CodecInOut \<Rightarrow> bool"
  ParamsPostInit :: "CompressParams \<Rightarrow> error + CompressParams"
  SizeHeader_Set :: "SizeHeader \<Rightarrow> size_t \<Rightarrow> size_t \<Rightarrow> error + SizeHeader"
  DecideIfWantICC :: "ColorEncoding \<Rightarrow> ColorEncoding"
  InterpretExif :: "u8 list \<Rightarrow> CodecMetadata \<Rightarrow> CodecMetadata"
  kCodestreamMarker :: u64
  WriteSizeHeader :: "SizeHeader \<Rightarrow> BitWriter \<Rightarrow> error + BitWriter"
  WriteImageMetadata :: "ImageMetadata \<Rightarrow> BitWriter \<Rightarrow> error + BitWriter"
  Bundle_Write :: "CustomTransformData \<Rightarrow> BitWriter \<Rightarrow> error + BitWriter"
  WriteICC :: "u8 list \<Rightarrow> BitWriter \<Rightarrow> error + BitWriter"
  FrameInfo_new :: FrameInfo
  PassesEncoderState_new :: PassesEncoderState
  EncodeFrame :: "CompressParams \<Rightarrow> FrameInfo \<Rightarrow> CodecMetadata \<Rightarrow> ImageBundle \<Rightarrow>
                  PassesEncoderState \<Rightarrow> BitWriter \<Rightarrow> Status \<times> PassesEncoderState \<times> BitWriter"

subsection \<open>PrepareCodecMetadataFromIO, lines 68 to 92\<close>

text \<open>The comparison \<open>x == 100.0f\<close>: 100 has the single bit pattern \<open>0x42c80000\<close>.\<close>

definition float_eq_100 :: "float32 \<Rightarrow> bool" where
  "float_eq_100 x = (x = 0x42c80000)"

definition PrepareCodecMetadataFromIO ::
  "externals \<Rightarrow> CompressParams \<Rightarrow> CodecInOut \<Rightarrow> error + CodecMetadata" where
  "PrepareCodecMetadataFromIO ext cparams io =
     (case Main io of
        None \<Rightarrow> Inl OutOfContract
      | Some main \<Rightarrow>
          let metadata = io_metadata io;
              ups = (if already_downsampled cparams then word_of_int (resampling cparams)
                     else 1 :: size_t)
          in (case SizeHeader_Set ext (size_header metadata) (io_xsize io * ups)
                     (io_ysize io * ups) of
                Inl e \<Rightarrow> Inl e
              | Inr sh \<Rightarrow>
                  (let metadata = metadata\<lparr>size_header := sh\<rparr>;
                       lossless_modular =
                         (modular_mode cparams \<and> float_eq_100 (quality_pair_first cparams));
                       m = image_metadata metadata;
                       m = (if \<not> lossless_modular \<and> \<not> IsJPEG main
                            then m\<lparr>color_encoding := DecideIfWantICC ext (color_encoding m)\<rparr>
                            else m);
                       m = m\<lparr>xyb_encoded := (color_transform cparams = kXYB)\<rparr>
                   in Inr (InterpretExif ext (blobs_exif io)
                             (metadata\<lparr>image_metadata := m\<rparr>)))))"

subsection \<open>EncodePreview, lines 96 to 121\<close>

text \<open>
  Lines 99 to 113: the local \<open>preview_writer\<close> as it stands before the test of line
  115. The frame is encoded into a fresh writer with a fresh encoder state, flagged
  \<open>is_preview\<close>, and the result is padded to a byte boundary; without colour data the
  writer stays empty.
\<close>

definition EncodePreview_side ::
  "externals \<Rightarrow> CompressParams \<Rightarrow> ImageBundle \<Rightarrow> CodecMetadata \<Rightarrow> error + BitWriter" where
  "EncodePreview_side ext cparams ib metadata =
     (let preview_writer = BitWriter_new
      in if HasColor ib then
           (let frame_info = (FrameInfo_new ext)\<lparr>is_preview := True\<rparr>
            in (case EncodeFrame ext cparams frame_info metadata ib
                       (PassesEncoderState_new ext) preview_writer of
                  (Inl e, _, _) \<Rightarrow> Inl e
                | (Inr _, _, preview_writer) \<Rightarrow> Inr (ZeroPadToByte preview_writer)))
         else Inr preview_writer)"

text \<open>
  The whole function: the result is the caller's \<open>writer\<close> after the call. On failure
  the caller's writer has not been touched.
\<close>

definition EncodePreview ::
  "externals \<Rightarrow> CompressParams \<Rightarrow> ImageBundle \<Rightarrow> CodecMetadata \<Rightarrow> BitWriter \<Rightarrow>
   error + BitWriter" where
  "EncodePreview ext cparams ib metadata writer =
     (case EncodePreview_side ext cparams ib metadata of
        Inl e \<Rightarrow> Inl e
      | Inr preview_writer \<Rightarrow>
          if BitsWritten preview_writer \<noteq> 0
          then Inr (AppendByteAligned (ZeroPadToByte writer) preview_writer)
          else Inr writer)"

subsection \<open>WriteHeaders, lines 123 to 142\<close>

definition WriteHeaders ::
  "externals \<Rightarrow> CodecMetadata \<Rightarrow> BitWriter \<Rightarrow> error + CodecMetadata \<times> BitWriter" where
  "WriteHeaders ext metadata writer =
     (let writer = Write 8 0xFF writer;
          writer = Write 8 (kCodestreamMarker ext) writer
      in (case WriteSizeHeader ext (size_header metadata) writer of
            Inl e \<Rightarrow> Inl e
          | Inr writer \<Rightarrow>
              (case WriteImageMetadata ext (image_metadata metadata) writer of
                 Inl e \<Rightarrow> Inl e
               | Inr writer \<Rightarrow>
                   (let metadata = metadata\<lparr>transform_data :=
                          (transform_data metadata)\<lparr>nonserialized_xyb_encoded :=
                             xyb_encoded (image_metadata metadata)\<rparr>\<rparr>
                    in (case Bundle_Write ext (transform_data metadata) writer of
                          Inl e \<Rightarrow> Inl e
                        | Inr writer \<Rightarrow> Inr (metadata, writer))))))"

subsection \<open>EncodeFile, lines 144 to 237\<close>

text \<open>
  Lines 148 to 175: parameters, metadata, headers, colour profile and preview, up to
  the byte alignment before the first frame. The result is the resolved parameters,
  the metadata and the writer.
\<close>

definition EncodeFile_headers ::
  "externals \<Rightarrow> CompressParams \<Rightarrow> CodecInOut \<Rightarrow>
   error + CompressParams \<times> CodecMetadata \<times> BitWriter" where
  "EncodeFile_headers ext params io =
     (if \<not> CheckMetadata ext io then Inl OutOfContract
      else case Main io of
        None \<Rightarrow> Inl OutOfContract
      | Some main \<Rightarrow>
          (let writer = BitWriter_new;
               cparams = (if color_transform_ib main \<noteq> kNone
                          then params\<lparr>color_transform := color_transform_ib main\<rparr>
                          else params)
           in (case ParamsPostInit ext cparams of
               Inl e \<Rightarrow> Inl e
             | Inr cparams \<Rightarrow>
          (case PrepareCodecMetadataFromIO ext cparams io of
               Inl e \<Rightarrow> Inl e
             | Inr metadata \<Rightarrow>
          (case WriteHeaders ext metadata writer of
               Inl e \<Rightarrow> Inl e
             | Inr (metadata, writer) \<Rightarrow>
          (case (if want_icc (color_encoding (image_metadata metadata))
                 then WriteICC ext (icc (color_encoding (image_metadata metadata))) writer
                 else Inr writer) of
               Inl e \<Rightarrow> Inl e
             | Inr writer \<Rightarrow>
          (case (if have_preview (image_metadata metadata)
                 then EncodePreview ext cparams (preview_frame io) metadata writer
                 else Inr writer) of
               Inl e \<Rightarrow> Inl e
             | Inr writer \<Rightarrow> Inr (cparams, metadata, ZeroPadToByte writer))))))))"

text \<open>
  Lines 177 to 216: the choice of the progressive mode. The \<open>switch\<close> is the chain of
  tests on the step count; its \<open>default\<close> branch returns the failure, and the state
  keeps the saliency map and threshold attached before it.
\<close>

definition EncodeFile_progressive ::
  "CompressParams \<Rightarrow> PassesEncoderState \<Rightarrow> Status \<times> PassesEncoderState" where
  "EncodeFile_progressive cparams passes_enc_state =
     (if progressive_mode cparams \<or> qprogressive_mode cparams then
        let ps = progressive_splitter passes_enc_state;
            ps = (case saliency_map cparams of
                    Some saliency \<Rightarrow> SetSaliencyMap saliency ps
                  | None \<Rightarrow> ps);
            ps = SetSaliencyThreshold (saliency_threshold cparams) ps;
            steps = saliency_num_progressive_steps cparams;
            install = (\<lambda>mode. (Inr (),
                         passes_enc_state\<lparr>progressive_splitter := SetProgressiveMode mode ps\<rparr>))
        in if qprogressive_mode cparams then install progressive_passes_dc_quant_ac_full_ac
           else if steps = 1 then install progressive_passes_dc_vlf
           else if steps = 2 then install progressive_passes_dc_lf
           else if steps = 3 then install progressive_passes_dc_lf_salient_ac
           else if steps = 4 then
             (if float_eq_zero (saliency_threshold cparams)
              then install progressive_passes_dc_lf_salient_ac
              else install progressive_passes_dc_lf_salient_ac_other_ac)
           else (Inl (Failure ''Invalid saliency_num_progressive_steps.''),
                 passes_enc_state\<lparr>progressive_splitter := ps\<rparr>)
      else (Inr (), passes_enc_state))"

text \<open>
  Lines 218 to 227: the frame loop, from index \<open>i\<close> on. A failing \<open>EncodeFrame\<close> ends
  the loop and the function at once.
\<close>

function EncodeFile_frames ::
  "externals \<Rightarrow> CompressParams \<Rightarrow> CodecMetadata \<Rightarrow> ImageBundle list \<Rightarrow> nat \<Rightarrow>
   PassesEncoderState \<Rightarrow> BitWriter \<Rightarrow> Status \<times> PassesEncoderState \<times> BitWriter" where
  "EncodeFile_frames ext cparams metadata fs i passes_enc_state writer =
     (if i < length fs then
        let info = (FrameInfo_new ext)\<lparr>is_last := (i = length fs - 1)\<rparr>;
            info = (if use_for_next_frame (fs ! i) then info\<lparr>save_as_reference := 1\<rparr>
                    else info)
        in (case EncodeFrame ext cparams info metadata (fs ! i) passes_enc_state writer of
              (Inl e, passes_enc_state, writer) \<Rightarrow> (Inl e, passes_enc_state, writer)
            | (Inr _, passes_enc_state, writer) \<Rightarrow>
                EncodeFile_frames ext cparams metadata fs (Suc i) passes_enc_state writer)
      else (Inr (), passes_enc_state, writer))"
  by pat_completeness auto
termination
  by (relation "measure (\<lambda>(ext, cparams, metadata, fs, i, st, writer). length fs - i)") auto

declare EncodeFile_frames.simps [simp del]

text \<open>Lines 229 to 233: the clean-up loop over the four slots.\<close>

definition EncodeFile_cleanup :: "PassesEncoderState \<Rightarrow> PassesEncoderState" where
  "EncodeFile_cleanup passes_enc_state =
     foldl (\<lambda>st i.
        let sh = shared st;
            sh = sh\<lparr>dc_frames := array4_update i Image3F_new (dc_frames sh)\<rparr>;
            sh = sh\<lparr>reference_frames :=
                   array4_update i ((array4_nth (reference_frames sh) i)\<lparr>storage := ImageBundle_new\<rparr>)
                     (reference_frames sh)\<rparr>
        in st\<lparr>shared := sh\<rparr>)
       passes_enc_state [0..<4]"

text \<open>
  The whole function. The result is the status, the shared encoder state as the call
  leaves it, and the caller's \<open>compressed\<close> buffer, which is assigned only at the end
  of a successful run.
\<close>

definition EncodeFile ::
  "externals \<Rightarrow> CompressParams \<Rightarrow> CodecInOut \<Rightarrow> PassesEncoderState \<Rightarrow> u8 list \<Rightarrow>
   Status \<times> PassesEncoderState \<times> u8 list" where
  "EncodeFile ext params io passes_enc_state compressed =
     (case EncodeFile_headers ext params io of
        Inl e \<Rightarrow> (Inl e, passes_enc_state, compressed)
      | Inr (cparams, metadata, writer) \<Rightarrow>
          (case EncodeFile_progressive cparams passes_enc_state of
             (Inl e, passes_enc_state) \<Rightarrow> (Inl e, passes_enc_state, compressed)
           | (Inr _, passes_enc_state) \<Rightarrow>
               (case EncodeFile_frames ext cparams metadata (frames io) 0 passes_enc_state
                       writer of
                  (Inl e, passes_enc_state, _) \<Rightarrow> (Inl e, passes_enc_state, compressed)
                | (Inr _, passes_enc_state, writer) \<Rightarrow>
                    (Inr (), EncodeFile_cleanup passes_enc_state, TakeBytes writer))))"

section \<open>Concrete inputs\<close>

text \<open>
  A session record with empty queues and the four container-related members given;
  the level is the declared codestream level.
\<close>

definition session_with :: "bool \<Rightarrow> u32 \<Rightarrow> bool \<Rightarrow> bool \<Rightarrow> JxlEncoderStruct" where
  "session_with container level jpeg boxes =
     \<lparr>num_queued_frames = 0, num_queued_boxes = 0, input_queue = [],
      output_byte_queue = [], output_bytes_flushed = 0,
      use_container = container, use_boxes = boxes, codestream_level = level,
      store_jpeg_metadata = jpeg, jpeg_metadata = [], wrote_bytes = False,
      jxlp_counter = 0, frames_closed = False, boxes_closed = False,
      basic_info_set = False, color_encoding_set = False, intensity_target_set = False,
      brotli_effort = - 1\<rparr>"

text \<open>The type tag of the codestream box.\<close>

definition jxlc :: BoxType where
  "jxlc = BoxType 0x6A 0x78 0x6C 0x63"

text \<open>
  A one-pixel image and a frame made of it, an encoder state whose slots hold image
  data left over from earlier use, and one instance of the external collaborators: all
  of them succeed, and the frame encoder appends three bits and records the frame's
  colour image in the second DC slot. The input has one frame and a preview.
\<close>

definition pixel_image :: ImageF where
  "pixel_image = \<lparr>xsize = 1, ysize = 1, samples = [0x3F800000]\<rparr>"

definition pixel_bundle :: ImageBundle where
  "pixel_bundle =
     \<lparr>color = Image3F pixel_image pixel_image pixel_image, extra_channels = [],
      is_jpeg = False, color_transform_ib = kNone, use_for_next_frame = True\<rparr>"

definition used_state :: PassesEncoderState where
  "used_state =
     \<lparr>progressive_splitter =
        \<lparr>splitter_saliency_map = None, splitter_saliency_threshold = 0, splitter_mode = []\<rparr>,
      shared =
        \<lparr>dc_frames = Array4 (color pixel_bundle) Image3F_new Image3F_new Image3F_new,
         reference_frames =
           Array4 \<lparr>storage = pixel_bundle, ib_is_in_xyb = True\<rparr>
                  \<lparr>storage = ImageBundle_new, ib_is_in_xyb = False\<rparr>
                  \<lparr>storage = ImageBundle_new, ib_is_in_xyb = False\<rparr>
                  \<lparr>storage = pixel_bundle, ib_is_in_xyb = False\<rparr>\<rparr>\<rparr>"

definition example_externals :: externals where
  "example_externals =
     \<lparr>CheckMetadata = (\<lambda>io. True),
      ParamsPostInit = (\<lambda>p. Inr p),
      SizeHeader_Set = (\<lambda>sh x y. Inr \<lparr>size_x = x, size_y = y\<rparr>),
      DecideIfWantICC = (\<lambda>c. c\<lparr>want_icc := False\<rparr>),
      InterpretExif = (\<lambda>exif md. md),
      kCodestreamMarker = 0x0A,
      WriteSizeHeader = (\<lambda>sh w. Inr (Write 1 1 w)),
      WriteImageMetadata = (\<lambda>m w. Inr (Write 1 1 w)),
      Bundle_Write = (\<lambda>t w. Inr (Write 1 1 w)),
      WriteICC = (\<lambda>bytes w. Inr w),
      FrameInfo_new = \<lparr>is_preview = False, is_last = True, save_as_reference = 0\<rparr>,
      PassesEncoderState_new = used_state,
      EncodeFrame = (\<lambda>cparams info md ib st w.
         (Inr (),
          st\<lparr>shared := (shared st)\<lparr>dc_frames := array4_update 1 (color ib) (dc_frames (shared st))\<rparr>\<rparr>,
          w @ [True, False, True]))\<rparr>"

definition example_params :: CompressParams where
  "example_params =
     \<lparr>color_transform = kXYB, already_downsampled = False, resampling = 1,
      modular_mode = False, quality_pair_first = 0x42c80000,
      progressive_mode = False, qprogressive_mode = False, saliency_map = None,
      saliency_threshold = 0, saliency_num_progressive_steps = 3\<rparr>"

definition example_io :: CodecInOut where
  "example_io =
     \<lparr>io_metadata =
        \<lparr>image_metadata =
           \<lparr>color_encoding = \<lparr>want_icc = False, icc = []\<rparr>, xyb_encoded = False,
            have_preview = True\<rparr>,
         size_header = \<lparr>size_x = 0, size_y = 0\<rparr>,
         transform_data = \<lparr>nonserialized_xyb_encoded = False\<rparr>\<rparr>,
      frames = [pixel_bundle],
      preview_frame = pixel_bundle,
      blobs_exif = [],
      io_xsize = 1,
      io_ysize = 1\<rparr>"


section \<open>Container necessity\<close>

text \<open>
  Claim C1. \<open>MustUseContainer\<close> returns false exactly when none of the four conditions
  holds: the container was not requested, the declared codestream level is the default
  5, \<open>store_jpeg_metadata\<close> is false and \<open>use_boxes\<close> is false. It returns true in
  every other case. The statement ranges over all session states, hence over all
  sixteen combinations of the four conditions.
\<close>

theorem MustUseContainer_iff:
  "MustUseContainer enc = False \<longleftrightarrow>
     (\<not> use_container enc \<and> codestream_level enc = 5 \<and> \<not> store_jpeg_metadata enc \<and>
      \<not> use_boxes enc)"
  by (auto simp: MustUseContainer_def)

theorem MustUseContainer_iff_witness:
  "MustUseContainer (session_with False 5 False False) = False \<and>
   MustUseContainer (session_with True 5 False False) \<and>
   MustUseContainer (session_with False 10 False False) \<and>
   MustUseContainer (session_with False 5 True False) \<and>
   MustUseContainer (session_with False 5 False True)"
  using MustUseContainer_iff [of "session_with False 5 False False"]
    MustUseContainer_iff [of "session_with True 5 False False"]
    MustUseContainer_iff [of "session_with False 10 False False"]
    MustUseContainer_iff [of "session_with False 5 True False"]
    MustUseContainer_iff [of "session_with False 5 False True"]
  by (simp add: session_with_def)

section \<open>Queue entries\<close>

text \<open>
  Claim C10, as amended. Immediately after construction a \<open>JxlEncoderQueuedInput\<close>
  holds neither a queued frame nor a queued box: both owning pointers are null, so in
  particular it does not hold both. The struct is a pair of independently nullable
  pointers; that one of them is set before the entry is used is left to the code that
  fills the queue.
\<close>

theorem queued_input_new_empty:
  "frame (JxlEncoderQueuedInput_new memory_manager) = None \<and>
   box (JxlEncoderQueuedInput_new memory_manager) = None"
  by (simp add: JxlEncoderQueuedInput_new_def)

text \<open>
  Claim C10 as first stated has exactly one of the two populated at every point of the
  lifetime, construction included. The freshly constructed entry holds neither.
\<close>

theorem queued_input_new_counterexample:
  "\<not> holds_exactly_one (JxlEncoderQueuedInput_new ())"
  by (simp add: holds_exactly_one_def JxlEncoderQueuedInput_new_def)

section \<open>Box headers\<close>

subsection \<open>Bytes of a word\<close>

lemma and_255_take_bit: "(w :: u64) AND 0xff = take_bit 8 w"
  by (simp add: take_bit_eq_mask mask_eq_exp_minus_1)

lemma unat_shifted_byte: "unat (shifted_byte v sh) = (unat v div 2 ^ sh) mod 256"
proof -
  have "take_bit 64 (unat v) = unat v"
    by (rule take_bit_nat_eq_self) (use unsigned_less [of v] in simp)
  then have "unat (shifted_byte v sh) = take_bit 8 (take_bit 8 (drop_bit sh (unat v)))"
    by (simp add: shifted_byte_def and_255_take_bit unsigned_ucast_eq
        unsigned_take_bit_eq unsigned_drop_bit_eq)
  also have "\<dots> = (unat v div 2 ^ sh) mod 256"
    by (simp add: take_bit_eq_mod drop_bit_eq_div)
  finally show ?thesis .
qed

lemma shifted_byte_0: "shifted_byte 0 sh = 0"
  by (simp add: shifted_byte_def)

lemma digit_step: "(n div 2 ^ (k + 8)) * 256 + n div 2 ^ k mod 256 = (n::nat) div 2 ^ k"
proof -
  have "n div 2 ^ (k + 8) = (n div 2 ^ k) div 256"
    by (simp add: power_add div_mult2_eq)
  then show ?thesis by simp
qed

lemma be_value4:
  assumes "unat v < 2 ^ 32"
  shows "be_value [shifted_byte v 24, shifted_byte v 16, shifted_byte v 8, shifted_byte v 0]
           = unat v"
proof -
  have "unat v div 2 ^ 24 < 256"
    by (rule less_mult_imp_div_less) (use assms in simp)
  then have top: "unat v div 2 ^ 24 mod 256 = unat v div 2 ^ 24"
    by simp
  have "be_value [shifted_byte v 24, shifted_byte v 16, shifted_byte v 8, shifted_byte v 0]
      = ((unat v div 2 ^ 24 * 256 + unat v div 2 ^ 16 mod 256) * 256
           + unat v div 2 ^ 8 mod 256) * 256 + unat v div 2 ^ 0 mod 256"
    using top by (simp add: be_value_def unat_shifted_byte)
  also have "\<dots> = unat v"
    using digit_step [of "unat v" 16] digit_step [of "unat v" 8] digit_step [of "unat v" 0]
    by simp
  finally show ?thesis .
qed

lemma be_value8:
  "be_value [shifted_byte v 56, shifted_byte v 48, shifted_byte v 40, shifted_byte v 32,
             shifted_byte v 24, shifted_byte v 16, shifted_byte v 8, shifted_byte v 0]
     = unat v"
proof -
  have "unat v < 2 ^ 64"
    using unsigned_less [of v] by simp
  then have "unat v div 2 ^ 56 < 256"
    by (intro less_mult_imp_div_less) simp
  then have top: "unat v div 2 ^ 56 mod 256 = unat v div 2 ^ 56"
    by simp
  have "be_value [shifted_byte v 56, shifted_byte v 48, shifted_byte v 40, shifted_byte v 32,
             shifted_byte v 24, shifted_byte v 16, shifted_byte v 8, shifted_byte v 0]
      = (((((((unat v div 2 ^ 56 * 256 + unat v div 2 ^ 48 mod 256) * 256
            + unat v div 2 ^ 40 mod 256) * 256 + unat v div 2 ^ 32 mod 256) * 256
            + unat v div 2 ^ 24 mod 256) * 256 + unat v div 2 ^ 16 mod 256) * 256
            + unat v div 2 ^ 8 mod 256) * 256 + unat v div 2 ^ 0 mod 256)"
    using top by (simp add: be_value_def unat_shifted_byte)
  also have "\<dots> = unat v"
    using digit_step [of "unat v" 48] digit_step [of "unat v" 40] digit_step [of "unat v" 32]
      digit_step [of "unat v" 24] digit_step [of "unat v" 16] digit_step [of "unat v" 8]
      digit_step [of "unat v" 0]
    by simp
  finally show ?thesis .
qed

subsection \<open>The loops of AppendBoxHeader, unrolled\<close>

lemma AppendBoxHeader_unfold:
  "AppendBoxHeader (BoxType a b c d) sz unbounded output =
     (let box_size = (if \<not> unbounded then sz + 8 else 0 :: u64);
          large_size = (\<not> unbounded \<and> box_size \<ge> 0x100000000);
          store = (if large_size then 1 else box_size)
      in output @
         [shifted_byte store 24, shifted_byte store 16, shifted_byte store 8,
          shifted_byte store 0] @
         [a, b, c, d] @
         (if large_size
          then [shifted_byte box_size 56, shifted_byte box_size 48,
                shifted_byte box_size 40, shifted_byte box_size 32,
                shifted_byte box_size 24, shifted_byte box_size 16,
                shifted_byte box_size 8, shifted_byte box_size 0]
          else []))"
  by (simp add: AppendBoxHeader_def Let_def push_back_def upt_rec numeral_nat)

lemma unat_plus8:
  assumes "unat (sz :: size_t) < 2 ^ 64 - 8"
  shows "unat (sz + 8) = unat sz + 8"
  using assms by (simp add: unat_word_ariths)

lemma large_size_iff:
  assumes "unat (sz :: size_t) < 2 ^ 64 - 8"
  shows "(0x100000000 \<le> sz + 8) \<longleftrightarrow> 2 ^ 32 - 8 \<le> unat sz"
proof -
  have "(0x100000000 \<le> sz + 8) \<longleftrightarrow> unat (0x100000000 :: size_t) \<le> unat (sz + 8)"
    by (simp add: word_le_nat_alt)
  then show ?thesis
    using unat_plus8 [OF assms] by simp
qed

subsection \<open>Bounded boxes\<close>

text \<open>
  The short form, used for payload sizes below \<open>2^32 - 8\<close>: the size field holds the
  payload size plus the 8 bytes of the header, and the header reads back to the type
  and the payload size.
\<close>

lemma AppendBoxHeader_short_form:
  assumes "unat sz < 2 ^ 32 - 8"
  shows "\<exists>hdr. AppendBoxHeader ty sz False output = output @ hdr \<and>
           length hdr = 8 \<and> be_value (take 4 hdr) = unat sz + 8 \<and>
           drop 4 hdr = box_bytes ty \<and>
           ParseBoxHeader hdr = Some (ty, unat sz)"
proof (cases ty)
  case (BoxType a b c d)
  have bound: "unat sz < 2 ^ 64 - 8"
    using assms by simp
  note plus = unat_plus8 [OF bound]
  note large = large_size_iff [OF bound]
  define hdr where "hdr =
     [shifted_byte (sz + 8) 24, shifted_byte (sz + 8) 16, shifted_byte (sz + 8) 8,
      shifted_byte (sz + 8) 0, a, b, c, d]"
  have small: "unat (sz + 8) < 2 ^ 32"
    using assms plus by simp
  have out: "AppendBoxHeader ty sz False output = output @ hdr"
    using assms large by (simp add: BoxType AppendBoxHeader_unfold hdr_def Let_def)
  have field: "be_value (take 4 hdr) = unat sz + 8"
    using be_value4 [OF small] plus by (simp add: hdr_def)
  have tag: "drop 4 hdr = box_bytes ty"
    by (simp add: hdr_def BoxType)
  have len: "length hdr = 8"
    by (simp add: hdr_def)
  have "ParseBoxHeader hdr = Some (BoxType (hdr ! 4) (hdr ! 5) (hdr ! 6) (hdr ! 7), unat sz)"
    using field len by (simp add: ParseBoxHeader_def Let_def)
  moreover have "BoxType (hdr ! 4) (hdr ! 5) (hdr ! 6) (hdr ! 7) = ty"
    by (simp add: hdr_def BoxType)
  ultimately show ?thesis
    using out field tag len by auto
qed

text \<open>
  The extended form, used from \<open>2^32 - 8\<close> on (below \<open>2^64 - 8\<close>, where \<open>size + 8\<close>
  does not wrap around): the header is 16 bytes long, but the extended field holds the
  payload size plus 8, as in the short form. It is 8 less than the size of the box, and
  the header reads back to a payload that is 8 bytes short.
\<close>

lemma AppendBoxHeader_extended_form:
  assumes "2 ^ 32 - 8 \<le> unat sz" and "unat sz < 2 ^ 64 - 8"
  shows "\<exists>hdr. AppendBoxHeader ty sz False output = output @ hdr \<and>
           length hdr = 16 \<and> be_value (take 4 hdr) = 1 \<and>
           take 4 (drop 4 hdr) = box_bytes ty \<and>
           be_value (drop 8 hdr) = unat sz + 8 \<and>
           ParseBoxHeader hdr = Some (ty, unat sz - 8)"
proof (cases ty)
  case (BoxType a b c d)
  note plus = unat_plus8 [OF assms(2)]
  note large = large_size_iff [OF assms(2)]
  define hdr where "hdr =
     [shifted_byte 1 24, shifted_byte 1 16, shifted_byte 1 8, shifted_byte 1 0,
      a, b, c, d,
      shifted_byte (sz + 8) 56, shifted_byte (sz + 8) 48, shifted_byte (sz + 8) 40,
      shifted_byte (sz + 8) 32, shifted_byte (sz + 8) 24, shifted_byte (sz + 8) 16,
      shifted_byte (sz + 8) 8, shifted_byte (sz + 8) 0]"
  have out: "AppendBoxHeader ty sz False output = output @ hdr"
    using assms(1) large by (simp add: BoxType AppendBoxHeader_unfold hdr_def Let_def)
  have one: "be_value (take 4 hdr) = 1"
    using be_value4 [of 1] by (simp add: hdr_def)
  have ext: "be_value (drop 8 hdr) = unat sz + 8"
    using be_value8 [of "sz + 8"] plus by (simp add: hdr_def)
  have tag: "take 4 (drop 4 hdr) = box_bytes ty"
    by (simp add: hdr_def BoxType)
  have len: "length hdr = 16"
    by (simp add: hdr_def)
  have "ParseBoxHeader hdr =
          Some (BoxType (hdr ! 4) (hdr ! 5) (hdr ! 6) (hdr ! 7), unat sz - 8)"
    using one ext len assms(1) by (simp add: ParseBoxHeader_def Let_def)
  moreover have "BoxType (hdr ! 4) (hdr ! 5) (hdr ! 6) (hdr ! 7) = ty"
    by (simp add: hdr_def BoxType)
  ultimately show ?thesis
    using out one ext tag len by auto
qed

text \<open>
  Claim C2 at the boundary \<open>S = 2^32 - 8\<close>, the smallest payload size with the
  extended form. The header is the size field 1, the type tag and the extended field;
  it is 16 bytes long, so the box, header included, has \<open>2^32 + 8\<close> bytes, but the
  extended field holds \<open>2^32\<close>, and the header reads back to the payload length
  \<open>2^32 - 16\<close> instead of \<open>2^32 - 8\<close>. One byte below the boundary the short form is
  written and reads back to the payload size.
\<close>

theorem AppendBoxHeader_extended_size_short_by_8:
  "unat (0xFFFFFFF8 :: size_t) = 2 ^ 32 - 8 \<and>
   AppendBoxHeader jxlc 0xFFFFFFF8 False [] =
     [0, 0, 0, 1, 0x6A, 0x78, 0x6C, 0x63, 0, 0, 0, 1, 0, 0, 0, 0] \<and>
   length (AppendBoxHeader jxlc 0xFFFFFFF8 False []) = 16 \<and>
   be_value (drop 8 (AppendBoxHeader jxlc 0xFFFFFFF8 False [])) = 2 ^ 32 \<and>
   length (AppendBoxHeader jxlc 0xFFFFFFF8 False []) + unat (0xFFFFFFF8 :: size_t) = 2 ^ 32 + 8 \<and>
   ParseBoxHeader (AppendBoxHeader jxlc 0xFFFFFFF8 False []) = Some (jxlc, 2 ^ 32 - 16) \<and>
   AppendBoxHeader jxlc 0xFFFFFFF7 False [] =
     [0xFF, 0xFF, 0xFF, 0xFF, 0x6A, 0x78, 0x6C, 0x63] \<and>
   ParseBoxHeader (AppendBoxHeader jxlc 0xFFFFFFF7 False []) = Some (jxlc, 2 ^ 32 - 9)"
proof -
  have o1: "AppendBoxHeader jxlc 0xFFFFFFF8 False [] =
      [0, 0, 0, 1, 0x6A, 0x78, 0x6C, 0x63, 0, 0, 0, 1, 0, 0, 0, 0]"
    by (simp add: jxlc_def AppendBoxHeader_unfold Let_def shifted_byte_def)
  have o2: "AppendBoxHeader jxlc 0xFFFFFFF7 False [] =
      [0xFF, 0xFF, 0xFF, 0xFF, 0x6A, 0x78, 0x6C, 0x63]"
    by (simp add: jxlc_def AppendBoxHeader_unfold Let_def shifted_byte_def)
  have e: "be_value [0, 0, 0, 1, 0, 0, 0, 0 :: u8] = 2 ^ 32"
    by (simp add: be_value_def)
  have p1: "ParseBoxHeader [0, 0, 0, 1, 0x6A, 0x78, 0x6C, 0x63, 0, 0, 0, 1, 0, 0, 0, 0] =
      Some (jxlc, 2 ^ 32 - 16)"
    by (simp add: ParseBoxHeader_def be_value_def jxlc_def Let_def)
  have p2: "ParseBoxHeader [0xFF, 0xFF, 0xFF, 0xFF, 0x6A, 0x78, 0x6C, 0x63] =
      Some (jxlc, 2 ^ 32 - 9)"
    by (simp add: ParseBoxHeader_def be_value_def jxlc_def Let_def)
  show ?thesis
    by (simp only: o1 o2 p1 p2) (simp add: e)
qed

subsection \<open>Unbounded boxes\<close>

text \<open>
  Claim C3, as amended. For every box header written with \<open>unbounded = true\<close>, the
  header records no size: whatever the \<open>size\<close> argument, the 4-byte size field is
  written with the value 0, the 4-byte type tag follows, and no extended size field is
  written. The header is eight bytes long.
\<close>

theorem AppendBoxHeader_unbounded:
  "AppendBoxHeader ty sz True output = output @ [0, 0, 0, 0] @ box_bytes ty"
  by (cases ty) (simp add: AppendBoxHeader_unfold shifted_byte_0)

text \<open>
  Claim C3 as first stated has the size field left out, so that the output starts with
  the type tag. The header of an unbounded \<open>jxlc\<close> box starts with four zero bytes.
\<close>

theorem AppendBoxHeader_unbounded_counterexample:
  "AppendBoxHeader jxlc 5 True [] = [0, 0, 0, 0, 0x6A, 0x78, 0x6C, 0x63] \<and>
   AppendBoxHeader jxlc 5 True [] \<noteq> box_bytes jxlc \<and>
   MakeBoxType ''jxlc'' = Some jxlc"
  by (simp add: jxlc_def AppendBoxHeader_unfold shifted_byte_0)

section \<open>Progressive modes\<close>

subsection \<open>The catalog\<close>

text \<open>
  Claim C7. Every table of the static progressive-pass catalog lists its passes in
  non-decreasing information order: from one pass to the next \<open>num_coefficients\<close>
  never decreases and \<open>suitable_for_downsampling_of_at_least\<close> never increases. The
  first pass of every table is usable as a DC or low-frequency approximation: it is not
  restricted to salient regions, carries at least two coefficients and is marked as
  sufficient for a downsampling of at least 2. The catalog has five tables.
\<close>

theorem catalog_information_order:
  "list_all (\<lambda>t. information_order t \<and> first_pass_is_approximation t) progressive_pass_catalog \<and>
   length progressive_pass_catalog = 5"
  by (simp add: progressive_pass_catalog_def progressive_passes_dc_vlf_def
      progressive_passes_dc_lf_def progressive_passes_dc_lf_salient_ac_def
      progressive_passes_dc_lf_salient_ac_other_ac_def
      progressive_passes_dc_quant_ac_full_ac_def)

subsection \<open>The quality-progressive mode\<close>



subsection \<open>Four saliency steps\<close>



section \<open>The preview\<close>

lemma pad_mod: "((n::nat) + (8 - n mod 8) mod 8) mod 8 = 0"
proof -
  define r where "r = n mod 8"
  have r: "r < 8" by (simp add: r_def)
  have "(r + (8 - r) mod 8) mod 8 = 0"
  proof (cases "r = 0")
    case True
    then show ?thesis by simp
  next
    case False
    with r have "(8 - r) mod 8 = 8 - r" by simp
    with r show ?thesis by simp
  qed
  moreover have "(n + (8 - r) mod 8) mod 8 = (n mod 8 + (8 - r) mod 8) mod 8"
    by (simp add: mod_add_left_eq)
  ultimately show ?thesis by (simp add: r_def)
qed

lemma ZeroPadToByte_aligned: "8 dvd length (ZeroPadToByte writer)"
  using pad_mod [of "length writer"]
  by (simp only: ZeroPadToByte_def length_append length_replicate dvd_eq_mod_eq_0)

lemma ZeroPadToByte_pad:
  "\<exists>pad. ZeroPadToByte writer = writer @ pad \<and> set pad \<subseteq> {False} \<and> length pad < 8"
  by (auto simp: ZeroPadToByte_def)

lemma EncodePreview_side_aligned:
  assumes "EncodePreview_side ext cparams ib metadata = Inr side"
  shows "8 dvd length side"
proof (cases "HasColor ib")
  case True
  obtain r st pw where e: "EncodeFrame ext cparams ((FrameInfo_new ext)\<lparr>is_preview := True\<rparr>)
      metadata ib (PassesEncoderState_new ext) BitWriter_new = (r, st, pw)"
    by (cases "EncodeFrame ext cparams ((FrameInfo_new ext)\<lparr>is_preview := True\<rparr>)
      metadata ib (PassesEncoderState_new ext) BitWriter_new") auto
  from assms True e have "side = ZeroPadToByte pw"
    by (cases r) (simp_all add: EncodePreview_side_def Let_def)
  then show ?thesis
    by (simp only: ZeroPadToByte_aligned)
next
  case False
  with assms have "side = []"
    by (simp add: EncodePreview_side_def BitWriter_new_def)
  then show ?thesis by simp
qed

lemma EncodePreview_side_no_color:
  "\<not> HasColor ib \<Longrightarrow> EncodePreview_side ext cparams ib metadata = Inr []"
  by (simp add: EncodePreview_side_def BitWriter_new_def)

lemma replicate_5: "replicate 5 x = [x, x, x, x, x]"
  by (simp add: eval_nat_numeral)

lemma ZeroPadToByte_three_bits: "ZeroPadToByte [True, False, True] = [True, False, True, False, False, False, False, False]"
  by (simp add: ZeroPadToByte_def replicate_5)

lemma preview_side_pixel: "EncodePreview_side example_externals example_params pixel_bundle
      (io_metadata example_io) = Inr [True, False, True, False, False, False, False, False]"
  by (simp add: EncodePreview_side_def example_externals_def HasColor_def pixel_bundle_def
        pixel_image_def BitWriter_new_def ZeroPadToByte_three_bits)

lemma preview_side_empty: "EncodePreview_side example_externals example_params ImageBundle_new
      (io_metadata example_io) = Inr []"
    by (simp add: EncodePreview_side_def HasColor_def ImageBundle_new_def Image3F_new_def
        ImageF_new_def BitWriter_new_def)

text \<open>
  Claim C8. Let \<open>side\<close> be the preview side buffer as it stands after encoding and
  padding. \<open>EncodePreview\<close> appends to the main writer exactly when \<open>side\<close> is not
  empty: the main writer is then padded with fewer than eight zero bits to a byte
  boundary and \<open>side\<close>, itself a whole number of bytes, is appended unchanged. When
  \<open>side\<close> is empty, the main writer is returned as it was, without padding. A preview
  without colour data leaves \<open>side\<close> empty.
\<close>

theorem EncodePreview_appends:
  assumes "EncodePreview_side ext cparams ib metadata = Inr side"
  shows "(if side = []
          then EncodePreview ext cparams ib metadata writer = Inr writer
          else \<exists>pad. EncodePreview ext cparams ib metadata writer = Inr (writer @ pad @ side) \<and>
                 set pad \<subseteq> {False} \<and> length pad < 8 \<and> 8 dvd length (writer @ pad)) \<and>
         8 dvd length side \<and>
         (HasColor ib \<or> side = [])"
proof -
  have al: "8 dvd length side"
    using assms by (rule EncodePreview_side_aligned)
  have nc: "HasColor ib \<or> side = []"
    using assms EncodePreview_side_no_color [of ib ext cparams metadata] by auto
  show ?thesis
  proof (cases "side = []")
    case True
    then show ?thesis
      using assms al nc by (simp add: EncodePreview_def BitsWritten_def)
  next
    case False
    obtain pad where pad: "ZeroPadToByte writer = writer @ pad" "set pad \<subseteq> {False}" "length pad < 8"
      using ZeroPadToByte_pad by blast
    have "8 dvd length (writer @ pad)"
      using ZeroPadToByte_aligned [of writer] by (simp only: pad(1))
    moreover have "EncodePreview ext cparams ib metadata writer = Inr (writer @ pad @ side)"
      using assms False pad(1) by (simp add: EncodePreview_def BitsWritten_def AppendByteAligned_def)
    ultimately show ?thesis
      using False al nc pad by auto
  qed
qed

theorem EncodePreview_appends_witness:
  "EncodePreview_side example_externals example_params pixel_bundle (io_metadata example_io) =
     Inr [True, False, True, False, False, False, False, False] \<and>
   (\<exists>pad. EncodePreview example_externals example_params pixel_bundle (io_metadata example_io)
            [True] = Inr ([True] @ pad @ [True, False, True, False, False, False, False, False]) \<and>
          set pad \<subseteq> {False} \<and> length pad < 8 \<and> 8 dvd length ([True] @ pad)) \<and>
   EncodePreview_side example_externals example_params ImageBundle_new (io_metadata example_io) =
     Inr [] \<and>
   EncodePreview example_externals example_params ImageBundle_new (io_metadata example_io) [True] =
     Inr [True]"
proof -
  have a: "\<exists>pad. EncodePreview example_externals example_params pixel_bundle (io_metadata example_io)
            [True] = Inr ([True] @ pad @ [True, False, True, False, False, False, False, False]) \<and>
          set pad \<subseteq> {False} \<and> length pad < 8 \<and> 8 dvd length ([True] @ pad)"
    using EncodePreview_appends [OF preview_side_pixel, of "[True]", THEN conjunct1] by (simp only: list.distinct if_False)
  have b: "EncodePreview example_externals example_params ImageBundle_new (io_metadata example_io)
      [True] = Inr [True]"
    using EncodePreview_appends [OF preview_side_empty, of "[True]", THEN conjunct1] by (simp only: if_True simp_thms)
  from a b preview_side_pixel preview_side_empty show ?thesis by blast
qed

section \<open>The encoder driver\<close>

subsection \<open>Running the example\<close>

lemma headers_example_any:
  "\<exists>md w. EncodeFile_headers example_externals p example_io = Inr (p, md, w)"
  by (simp add: EncodeFile_headers_def example_externals_def example_io_def Main_def
      pixel_bundle_def PrepareCodecMetadataFromIO_def Let_def WriteHeaders_def
      EncodePreview_def EncodePreview_side_def HasColor_def pixel_image_def IsJPEG_def
      BitsWritten_def split: sum.splits)

lemma EncodeFile_success:
  assumes "EncodeFile_headers ext params io = Inr (cparams, metadata, writer)"
    and "EncodeFile_progressive cparams st = (Inr (), st1)"
    and "EncodeFile_frames ext cparams metadata (frames io) 0 st1 writer = (Inr (), st2, writer2)"
  shows "EncodeFile ext params io st compressed =
           (Inr (), EncodeFile_cleanup st2, TakeBytes writer2)"
  using assms by (simp add: EncodeFile_def)

lemma frames_example:
  "\<exists>st' w'. EncodeFile_frames example_externals p md [pixel_bundle] 0 st w = (Inr (), st', w')"
  by (simp add: EncodeFile_frames.simps [of _ _ _ _ 0] EncodeFile_frames.simps [of _ _ _ _ "Suc 0"]
      example_externals_def Let_def)

lemma progressive_example:
  assumes "qprogressive_mode p \<or> \<not> progressive_mode p"
  shows "\<exists>st1. EncodeFile_progressive p st = (Inr (), st1)"
  using assms by (auto simp: EncodeFile_progressive_def Let_def)

lemma example_succeeds:
  assumes "qprogressive_mode p \<or> \<not> progressive_mode p"
  shows "fst (EncodeFile example_externals p example_io st c) = Inr ()"
proof -
  obtain md w where h: "EncodeFile_headers example_externals p example_io = Inr (p, md, w)"
    using headers_example_any by blast
  obtain st1 where s: "EncodeFile_progressive p st = (Inr (), st1)"
    using progressive_example [OF assms] by blast
  obtain st2 w2 where
    f: "EncodeFile_frames example_externals p md (frames example_io) 0 st1 w = (Inr (), st2, w2)"
    using frames_example [of p md st1 w] by (auto simp: example_io_def)
  show ?thesis
    by (simp add: EncodeFile_success [OF h s f])
qed

subsection \<open>Rejecting the step count\<close>

text \<open>
  Claim C4, as amended. For every encode call that gets through the header stage
  (parameters, metadata, headers, colour profile and preview all succeed) and whose
  resolved parameters have the progressive flag set, the quality-progressive flag unset
  and a saliency step count outside \<open>{1, 2, 3, 4}\<close>, \<open>EncodeFile\<close> returns the failure
  "Invalid saliency_num_progressive_steps." before the frame loop encodes any frame:
  the output buffer is left as it was, and the shared encoder state has only had the
  saliency map and threshold attached.
\<close>

theorem EncodeFile_rejects_steps:
  assumes "EncodeFile_headers ext params io = Inr (cparams, metadata, writer)"
    and "progressive_mode cparams" and "\<not> qprogressive_mode cparams"
    and "saliency_num_progressive_steps cparams \<notin> {1, 2, 3, 4}"
  shows "EncodeFile ext params io passes_enc_state compressed =
     (Inl (Failure ''Invalid saliency_num_progressive_steps.''),
      passes_enc_state\<lparr>progressive_splitter :=
        SetSaliencyThreshold (saliency_threshold cparams)
          (case saliency_map cparams of
             Some saliency \<Rightarrow> SetSaliencyMap saliency (progressive_splitter passes_enc_state)
           | None \<Rightarrow> progressive_splitter passes_enc_state)\<rparr>,
      compressed)"
  using assms by (simp add: EncodeFile_def EncodeFile_progressive_def Let_def)

theorem EncodeFile_rejects_steps_witness:
  "EncodeFile example_externals
      (example_params\<lparr>progressive_mode := True, saliency_num_progressive_steps := 5\<rparr>)
      example_io used_state [1, 2, 3] =
     (Inl (Failure ''Invalid saliency_num_progressive_steps.''),
      used_state\<lparr>progressive_splitter :=
        \<lparr>splitter_saliency_map = None, splitter_saliency_threshold = 0, splitter_mode = []\<rparr>\<rparr>,
      [1, 2, 3])"
proof -
  let ?p = "example_params\<lparr>progressive_mode := True, saliency_num_progressive_steps := 5\<rparr>"
  obtain md w where h: "EncodeFile_headers example_externals ?p example_io = Inr (?p, md, w)"
    using headers_example_any by blast
  have "progressive_mode ?p" "\<not> qprogressive_mode ?p"
    "saliency_num_progressive_steps ?p \<notin> {1, 2, 3, 4}"
    by (simp_all add: example_params_def)
  from EncodeFile_rejects_steps [OF h this, of used_state "[1, 2, 3]"]
  show ?thesis
    by (simp add: example_params_def SetSaliencyThreshold_def used_state_def)
qed

text \<open>
  Claim C4 as first stated covers every call with a step count outside the four
  values. With neither progressive flag set, or with the quality-progressive flag set,
  the step count is never looked at: the example encode succeeds with step counts 0
  and 7.
\<close>

theorem EncodeFile_steps_ignored_counterexample:
  "saliency_num_progressive_steps (example_params\<lparr>saliency_num_progressive_steps := 0\<rparr>)
      \<notin> {1, 2, 3, 4} \<and>
   fst (EncodeFile example_externals (example_params\<lparr>saliency_num_progressive_steps := 0\<rparr>)
          example_io used_state []) = Inr () \<and>
   saliency_num_progressive_steps
      (example_params\<lparr>qprogressive_mode := True, saliency_num_progressive_steps := 7\<rparr>)
      \<notin> {1, 2, 3, 4} \<and>
   fst (EncodeFile example_externals
          (example_params\<lparr>qprogressive_mode := True, saliency_num_progressive_steps := 7\<rparr>)
          example_io used_state []) = Inr ()"
proof -
  let ?p = "example_params\<lparr>saliency_num_progressive_steps := 0\<rparr>"
  let ?q = "example_params\<lparr>qprogressive_mode := True, saliency_num_progressive_steps := 7\<rparr>"
  have a: "fst (EncodeFile example_externals ?p example_io used_state []) = Inr ()"
    by (rule example_succeeds) (simp_all add: example_params_def)
  have b: "fst (EncodeFile example_externals ?q example_io used_state []) = Inr ()"
    by (rule example_succeeds) (simp_all add: example_params_def)
  from a b show ?thesis by (simp add: example_params_def)
qed

subsection \<open>Clearing the slots\<close>

lemma cleanup_slots:
  "dc_frames (shared (EncodeFile_cleanup st)) =
     Array4 Image3F_new Image3F_new Image3F_new Image3F_new \<and>
   map storage (array4_list (reference_frames (shared (EncodeFile_cleanup st)))) =
     [ImageBundle_new, ImageBundle_new, ImageBundle_new, ImageBundle_new]"
proof -
  obtain a b c d where dc: "dc_frames (shared st) = Array4 a b c d"
    by (cases "dc_frames (shared st)")
  obtain p q r s where rf: "reference_frames (shared st) = Array4 p q r s"
    by (cases "reference_frames (shared st)")
  show ?thesis
    by (simp add: EncodeFile_cleanup_def Let_def upt_rec numeral_nat dc rf)
qed

text \<open>
  Claim C9. When the frame loop of \<open>EncodeFile\<close> has completed, that is when the call
  returns success, all four DC-frame accumulators of the shared encoder state are
  default-constructed, empty images and the storage of all four reference-frame slots
  is a default-constructed, empty bundle, whatever the slots held before and whatever
  the frame encoder wrote to them. A later encode that is handed the same state finds
  no image data of this one in them.
\<close>

theorem EncodeFile_success_clears_slots:
  assumes "fst (EncodeFile ext params io passes_enc_state compressed) = Inr ()"
  shows "dc_frames (shared (fst (snd (EncodeFile ext params io passes_enc_state compressed)))) =
           Array4 Image3F_new Image3F_new Image3F_new Image3F_new \<and>
         map storage (array4_list (reference_frames
             (shared (fst (snd (EncodeFile ext params io passes_enc_state compressed)))))) =
           [ImageBundle_new, ImageBundle_new, ImageBundle_new, ImageBundle_new]"
  using assms cleanup_slots
  by (auto simp: EncodeFile_def split: sum.splits prod.splits)

theorem EncodeFile_success_clears_slots_witness:
  "fst (EncodeFile example_externals example_params example_io used_state []) = Inr () \<and>
   dc_frames (shared used_state) \<noteq> Array4 Image3F_new Image3F_new Image3F_new Image3F_new \<and>
   dc_frames (shared (fst (snd (EncodeFile example_externals example_params example_io used_state [])))) =
     Array4 Image3F_new Image3F_new Image3F_new Image3F_new \<and>
   map storage (array4_list (reference_frames
      (shared (fst (snd (EncodeFile example_externals example_params example_io used_state [])))))) =
     [ImageBundle_new, ImageBundle_new, ImageBundle_new, ImageBundle_new]"
proof -
  have ok: "fst (EncodeFile example_externals example_params example_io used_state []) = Inr ()"
    by (rule example_succeeds) (simp_all add: example_params_def)
  have stale: "dc_frames (shared used_state) \<noteq>
      Array4 Image3F_new Image3F_new Image3F_new Image3F_new"
    by (simp add: used_state_def pixel_bundle_def Image3F_new_def pixel_image_def ImageF_new_def)
  from EncodeFile_success_clears_slots [OF ok] ok stale show ?thesis by blast
qed

end
